theory Spec2Isabelle
  imports Main "HOL-Library.Word" "HOL-Library.Sublist"
begin

section \<open>The design model\<close>

text \<open>
  The generator of \<^verbatim>\<open>goagen/gen_main/generator.go\<close> reads an API design
  (package \<^verbatim>\<open>design\<close>) and writes Go source files. The design types are declared
  outside the generator; they are modelled from the specification's data model, with
  the fields the generator reads.
\<close>

datatype error = Error string

text \<open>
  Modelled from the spec: \<^verbatim>\<open>design.ResponseDefinition\<close>, one declared response: its
  name, numeric status code, media-type identifier and optional view (empty: the
  default view).
\<close>

record ResponseDefinition =
  Name :: string
  Status :: int
  MediaType :: string
  ViewName :: string

text \<open>
  Modelled from the spec: \<^verbatim>\<open>design.ActionDefinition\<close>. \<open>Parent\<close> is the back-reference
  to the owning resource; the templates read only its name, which is what the field
  holds. \<open>Responses\<close> is the mapping from status code to response, written as the
  list of its entries in the order in which a \<^verbatim>\<open>range\<close> loop visits them (an order
  that Go does not fix); as a mapping it has one entry per status code, which is
  \<open>distinct (map Status (Responses a))\<close>. \<open>WebSocket\<close> is the result of the method of
  that name.
\<close>

record ActionDefinition =
  Name :: string
  Parent :: string
  Responses :: "ResponseDefinition list"
  WebSocket :: bool

text \<open>
  Modelled from the spec: \<^verbatim>\<open>design.ResourceDefinition\<close> and \<^verbatim>\<open>design.APIDefinition\<close>.
  \<open>Actions\<close> and \<open>Resources\<close> are the mappings keyed by name, written as the list of
  their entries in the deterministic order of iteration.
\<close>

record ResourceDefinition =
  Name :: string
  Actions :: "ActionDefinition list"

record APIDefinition =
  Name :: string
  Host :: string
  Resources :: "ResourceDefinition list"

text \<open>
  Modelled from the spec: \<^verbatim>\<open>design.MediaTypeDefinition\<close>: identifier, type name,
  attributes (name and type), required attribute names, views (name and attribute
  subset), links (name and view) and the error-shaped flag.
\<close>

record MediaTypeDefinition =
  Identifier :: string
  TypeName :: string
  Attributes :: "(string \<times> string) list"
  Required :: "string list"
  Views :: "(string \<times> string list) list"
  Links :: "(string \<times> string) list"
  ErrorShaped :: bool

text \<open>Modelled from the spec: the methods \<^verbatim>\<open>IsError\<close> and \<^verbatim>\<open>AllRequired\<close> of a media type.\<close>

definition IsError :: "MediaTypeDefinition \<Rightarrow> bool" where
  "IsError mt = ErrorShaped mt"

definition AllRequired :: "MediaTypeDefinition \<Rightarrow> string list" where
  "AllRequired mt = Required mt"

text \<open>Modelled from the spec: the constant \<^verbatim>\<open>design.DefaultView\<close>, the literal default view name.\<close>

definition DefaultView :: string where
  "DefaultView = ''default''"

section \<open>Collaborators and state\<close>

text \<open>
  The functions the generator calls in other packages are parameters of the model,
  each a function of its arguments: the global media-type mapping
  \<^verbatim>\<open>design.Design.MediaTypes\<close>, \<^verbatim>\<open>design.CanonicalIdentifier\<close>, the view projection
  \<^verbatim>\<open>Project\<close> (its second result is discarded by the generator), the naming functions of
  \<^verbatim>\<open>codegen\<close>, \<^verbatim>\<open>codegen.PackagePath\<close>, \<^verbatim>\<open>filepath.Join\<close>, \<^verbatim>\<open>filepath.ToSlash\<close>,
  \<^verbatim>\<open>path.Join\<close>, \<^verbatim>\<open>codegen.SourceFileFor\<close> (\<open>None\<close>: a file handle is returned), the
  text of the header that \<^verbatim>\<open>WriteHeader\<close> writes, the formatter behind
  \<^verbatim>\<open>FormatCode\<close>, the verb \<^verbatim>\<open>%q\<close> and \<^verbatim>\<open>net.SplitHostPort\<close>.
  \<open>TemplateError name text\<close> says whether executing the template \<open>name\<close> whose
  expansion is \<open>text\<close> fails: \<open>Some (n, e)\<close> is a failure with error \<open>e\<close> after \<open>n\<close>
  characters of the expansion were written.
\<close>

record env =
  MediaTypes :: "string \<rightharpoonup> MediaTypeDefinition"
  CanonicalIdentifier :: "string \<Rightarrow> string"
  Project :: "MediaTypeDefinition \<Rightarrow> string \<Rightarrow> error + MediaTypeDefinition"
  GoTypeRef :: "MediaTypeDefinition \<Rightarrow> string list \<Rightarrow> int \<Rightarrow> bool \<Rightarrow> string"
  GoNativeType :: "MediaTypeDefinition \<Rightarrow> string"
  Goify :: "string \<Rightarrow> bool \<Rightarrow> string"
  SnakeCase :: "string \<Rightarrow> string"
  PackagePath :: "string \<Rightarrow> error + string"
  Join :: "string \<Rightarrow> string \<Rightarrow> string"
  ToSlash :: "string \<Rightarrow> string"
  PathJoin :: "string \<Rightarrow> string \<Rightarrow> string"
  SourceFileFor :: "string \<Rightarrow> error option"
  Header :: "string \<Rightarrow> string \<Rightarrow> string list \<Rightarrow> string"
  Format :: "string \<Rightarrow> error + string"
  Quote :: "string \<Rightarrow> string"
  SplitHostPort :: "string \<Rightarrow> error + (string \<times> string)"
  TemplateError :: "string \<Rightarrow> string \<Rightarrow> (nat \<times> error) option"

text \<open>The struct \<^verbatim>\<open>Generator\<close>.\<close>

record Generator =
  API :: APIDefinition
  OutDir :: string
  DesignPkg :: string
  Target :: string
  Force :: bool
  genfiles :: "string list"

text \<open>
  The state outside the generator struct: the file system (path to content), the
  package variable \<^verbatim>\<open>tempCount\<close> (a Go \<^verbatim>\<open>int\<close>, 64 bits wide on 64-bit
  platforms, where \<^verbatim>\<open>++\<close> wraps around) and the set \<^verbatim>\<open>codegen.Reserved\<close>.
\<close>

record world =
  fs :: "string \<rightharpoonup> string"
  tempCount :: "64 word"
  Reserved :: "string set"

subsection \<open>File system operations\<close>

text \<open>
  \<^verbatim>\<open>os.Remove\<close> (its error is ignored by every caller), \<^verbatim>\<open>os.Stat\<close> (an error exactly
  when nothing is at the path) and the writes of a source file, which append to the
  file and create it when it is absent (their errors are ignored by every caller).
  \<^verbatim>\<open>ExecuteTemplate\<close> writes the expansion, or the part of it written before the
  failure. \<^verbatim>\<open>FormatCode\<close> replaces the content of the file by its formatted form, or
  returns the error of the formatter and leaves the file; it also fails when there is
  no file to read.
\<close>

definition Remove :: "string \<Rightarrow> world \<Rightarrow> world" where
  "Remove p w = w\<lparr>fs := (fs w)(p := None)\<rparr>"

definition Stat :: "world \<Rightarrow> string \<Rightarrow> error option" where
  "Stat w p = (case fs w p of None \<Rightarrow> Some (Error ''no such file'') | Some c \<Rightarrow> None)"

definition Write :: "string \<Rightarrow> string \<Rightarrow> world \<Rightarrow> world" where
  "Write p s w = w\<lparr>fs := (fs w)(p \<mapsto> (case fs w p of None \<Rightarrow> s | Some c \<Rightarrow> c @ s))\<rparr>"

definition WriteHeader :: "env \<Rightarrow> string \<Rightarrow> string \<Rightarrow> string \<Rightarrow> string list \<Rightarrow> world \<Rightarrow> world" where
  "WriteHeader env file title pack imports w = Write file (Header env title pack imports) w"

definition ExecuteTemplate :: "env \<Rightarrow> string \<Rightarrow> string \<Rightarrow> string \<Rightarrow> world \<Rightarrow> error option \<times> world" where
  "ExecuteTemplate env file name text w =
     (case TemplateError env name text of
        None \<Rightarrow> (None, Write file text w)
      | Some (n, e) \<Rightarrow> (Some e, Write file (take n text) w))"

definition FormatCode :: "env \<Rightarrow> string \<Rightarrow> world \<Rightarrow> error option \<times> world" where
  "FormatCode env file w =
     (case fs w file of
        None \<Rightarrow> (Some (Error ''no such file''), w)
      | Some src \<Rightarrow>
          (case Format env src of
             Inl e \<Rightarrow> (Some e, w)
           | Inr out \<Rightarrow> (None, w\<lparr>fs := (fs w)(file \<mapsto> out)\<rparr>)))"

section \<open>The rollback tracker\<close>

text \<open>
  \<^verbatim>\<open>Cleanup\<close> removes every file of the creation log, in order, and then sets the log to
  \<^verbatim>\<open>nil\<close>.
\<close>

definition Cleanup :: "Generator \<Rightarrow> world \<Rightarrow> Generator \<times> world" where
  "Cleanup g w = (g\<lparr>genfiles := []\<rparr>, fold Remove (genfiles g) w)"

section \<open>The temp-name allocator\<close>

text \<open>
  The verb \<^verbatim>\<open>%d\<close> of \<^verbatim>\<open>fmt.Sprintf\<close> on an \<^verbatim>\<open>int\<close>: the decimal digits, most
  significant first, after a minus sign for a negative number. \<open>fmtDigits u buf\<close>
  puts the digits of \<open>u\<close> in front of \<open>buf\<close>, least significant digit first, as the
  formatter fills its buffer; \<open>digit\<close> is applied to numbers below ten only.
\<close>

definition digit :: "nat \<Rightarrow> char" where
  "digit d = ''0123456789'' ! d"

fun fmtDigits :: "nat \<Rightarrow> string \<Rightarrow> string" where
  "fmtDigits u buf =
     (if u < 10 then digit u # buf else fmtDigits (u div 10) (digit (u mod 10) # buf))"

declare fmtDigits.simps [simp del]

definition fmt_d :: "int \<Rightarrow> string" where
  "fmt_d i = (if i < 0 then CHR ''-'' # fmtDigits (nat (- i)) [] else fmtDigits (nat i) [])"

text \<open>
  \<^verbatim>\<open>tempvar\<close> increments the package variable \<^verbatim>\<open>tempCount\<close> and names the result:
  the model takes the counter and returns the name with the new counter. The counter is
  read as a signed number (\<open>sint\<close>).
\<close>

definition tempvar :: "64 word \<Rightarrow> string \<times> 64 word" where
  "tempvar tc =
     (let tc = tc + 1
      in if tc = 1 then (''c'', tc) else (''c'' @ fmt_d (sint tc), tc))"

text \<open>\<open>n\<close> consecutive calls of \<^verbatim>\<open>tempvar\<close>: the names in the order of the calls, and the counter.\<close>

fun tempvars :: "nat \<Rightarrow> 64 word \<Rightarrow> string list \<times> 64 word" where
  "tempvars 0 tc = ([], tc)"
| "tempvars (Suc n) tc =
     (case tempvar tc of (x, tc') \<Rightarrow>
        (case tempvars n tc' of (xs, tc'') \<Rightarrow> (x # xs, tc'')))"

section \<open>The response resolver\<close>

text \<open>
  The map that \<^verbatim>\<open>okResp\<close> returns has the keys \<^verbatim>\<open>Name\<close>, \<^verbatim>\<open>GoType\<close> and
  \<^verbatim>\<open>TypeRef\<close>, each with a string; the \<^verbatim>\<open>nil\<close> map is \<open>None\<close>.
\<close>

record okRespMap =
  Name :: string
  GoType :: string
  TypeRef :: string

text \<open>
  \<^verbatim>\<open>okResp\<close>: the first response with status 200 in the order of the loop, its media
  type in the global mapping, the projection through the view, the constructor
  expression and the name.
\<close>

definition okResp :: "env \<Rightarrow> Generator \<Rightarrow> ActionDefinition \<Rightarrow> okRespMap option" where
  \<open>okResp env g a =
     (case find (\<lambda>resp. Status resp = 200) (Responses a) of
        None \<Rightarrow> None
      | Some ok \<Rightarrow>
          (case MediaTypes env (CanonicalIdentifier env (MediaType ok)) of
             None \<Rightarrow> None
           | Some mt \<Rightarrow>
               (let view = (if ViewName ok = [] then DefaultView else ViewName ok)
                in case Project env mt view of
                     Inl err \<Rightarrow> None
                   | Inr pmt \<Rightarrow>
                       (let typeref =
                              (if IsError pmt then ''goa.ErrInternal("not implemented")''
                               else
                                 (let name = GoTypeRef env pmt (AllRequired pmt) 1 False;
                                      pointer = (if prefix ''*'' name then ''*'' else []);
                                      name = (if prefix ''*'' name then drop 1 name else name);
                                      typeref = pointer @ Target g @ ''.'' @ name;
                                      typeref = (if prefix ''*'' typeref
                                                 then ''&'' @ drop 1 typeref else typeref)
                                  in typeref @ ''{}''));
                            nameSuffix = (if view \<noteq> ''default'' then Goify env view True else [])
                        in Some \<lparr>okRespMap.Name = ResponseDefinition.Name ok @ nameSuffix,
                                  GoType = GoNativeType env pmt,
                                  TypeRef = typeref\<rparr>))))\<close>

section \<open>The templates\<close>

text \<open>
  The expansion of each template constant, as \<^verbatim>\<open>text/template\<close> produces it from the
  functions \<^verbatim>\<open>goify\<close>, \<^verbatim>\<open>targetPkg\<close>, \<^verbatim>\<open>okResp\<close>, \<^verbatim>\<open>tempvar\<close> and \<^verbatim>\<open>getPort\<close>.
  A map is true in \<^verbatim>\<open>if\<close> exactly when it is not empty, so the map of \<^verbatim>\<open>okResp\<close> is
  true exactly when it is not \<^verbatim>\<open>nil\<close>.
\<close>

abbreviation TAB :: string where
  "TAB \<equiv> [CHR 0x09]"

definition ctrlT :: "env \<Rightarrow> ResourceDefinition \<Rightarrow> string" where
  \<open>ctrlT env r =
     (let ctrlName = Goify env (ResourceDefinition.Name r) True @ ''Controller''
      in ''// '' @ ctrlName @ '' implements the '' @ ResourceDefinition.Name r @ '' resource.\<newline>'' @
         ''type '' @ ctrlName @ '' struct {\<newline>'' @
         TAB @ ''*goa.Controller\<newline>'' @
         ''}\<newline>\<newline>'' @
         ''// New'' @ ctrlName @ '' creates a '' @ ResourceDefinition.Name r @ '' controller.\<newline>'' @
         ''func New'' @ ctrlName @ ''(service *goa.Service) *'' @ ctrlName @ '' {\<newline>'' @
         TAB @ ''return &'' @ ctrlName @ ''{Controller: service.NewController("'' @ ctrlName @ ''")}\<newline>'' @
         ''}\<newline>'')\<close>

definition actionT :: "env \<Rightarrow> Generator \<Rightarrow> ActionDefinition \<Rightarrow> string" where
  \<open>actionT env g a =
     (let ctrlName = Goify env (Parent a) True @ ''Controller'';
          name = Goify env (ActionDefinition.Name a) True;
          ok = okResp env g a
      in ''// '' @ name @ '' runs the '' @ ActionDefinition.Name a @ '' action.\<newline>'' @
         ''func (c *'' @ ctrlName @ '') '' @ name @ ''(ctx *'' @ Target g @ ''.'' @ name @
           Goify env (Parent a) True @ ''Context) error {\<newline>'' @
         TAB @ ''// '' @ ctrlName @ ''_'' @ name @ '': start_implement\<newline>\<newline>'' @
         TAB @ ''// Put your logic here\<newline>\<newline>'' @
         TAB @ ''// '' @ ctrlName @ ''_'' @ name @ '': end_implement\<newline>'' @
         (case ok of None \<Rightarrow> [] | Some m \<Rightarrow> '' res := '' @ TypeRef m @ ''\<newline>'') @
         '' return '' @
         (case ok of None \<Rightarrow> ''nil'' | Some m \<Rightarrow> ''ctx.'' @ okRespMap.Name m @ ''(res)'') @
         ''\<newline>}\<newline>'')\<close>

definition actionWST :: "env \<Rightarrow> Generator \<Rightarrow> ActionDefinition \<Rightarrow> string" where
  \<open>actionWST env g a =
     (let ctrlName = Goify env (Parent a) True @ ''Controller'';
          name = Goify env (ActionDefinition.Name a) True;
          ctx = Target g @ ''.'' @ name @ Goify env (Parent a) True @ ''Context''
      in ''// '' @ name @ '' runs the '' @ ActionDefinition.Name a @ '' action.\<newline>'' @
         ''func (c *'' @ ctrlName @ '') '' @ name @ ''(ctx *'' @ ctx @ '') error {\<newline>'' @
         TAB @ ''c.'' @ name @ ''WSHandler(ctx).ServeHTTP(ctx.ResponseWriter, ctx.Request)\<newline>'' @
         TAB @ ''return nil\<newline>'' @
         ''}\<newline>\<newline>'' @
         ''// '' @ name @ ''WSHandler establishes a websocket connection to run the '' @
           ActionDefinition.Name a @ '' action.\<newline>'' @
         ''func (c *'' @ ctrlName @ '') '' @ name @ ''WSHandler(ctx *'' @ ctx @
           '') websocket.Handler {\<newline>'' @
         TAB @ ''return func(ws *websocket.Conn) {\<newline>'' @
         TAB @ TAB @ ''// '' @ ctrlName @ ''_'' @ name @ '': start_implement\<newline>\<newline>'' @
         TAB @ TAB @ ''// Put your logic here\<newline>\<newline>'' @
         TAB @ TAB @ ''// '' @ ctrlName @ ''_'' @ name @ '': end_implement\<newline>'' @
         TAB @ TAB @ ''ws.Write([]byte("'' @ ActionDefinition.Name a @ '' '' @ Parent a @ ''"))\<newline>'' @
         TAB @ TAB @ ''// Dummy echo websocket server\<newline>'' @
         TAB @ TAB @ ''io.Copy(ws, ws)\<newline>'' @
         TAB @ ''}\<newline>'' @
         ''}\<newline>'')\<close>

text \<open>The function \<^verbatim>\<open>getPort\<close> that \<^verbatim>\<open>createMainFile\<close> adds to the template functions.\<close>

definition getPort :: "env \<Rightarrow> string \<Rightarrow> string" where
  "getPort env hostport =
     (case SplitHostPort env hostport of Inl err \<Rightarrow> ''8080'' | Inr (host, port) \<Rightarrow> port)"

text \<open>
  The \<^verbatim>\<open>range\<close> block of the main template, one round per resource: each round calls
  \<^verbatim>\<open>tempvar\<close> once, so the counter is passed along.
\<close>

fun mainT_range :: "env \<Rightarrow> Generator \<Rightarrow> ResourceDefinition list \<Rightarrow> 64 word \<Rightarrow> string \<times> 64 word" where
  \<open>mainT_range env g [] tc = ([], tc)\<close>
| \<open>mainT_range env g (res # rs) tc =
     (let name = Goify env (ResourceDefinition.Name res) True
      in case tempvar tc of (tmp, tc) \<Rightarrow>
           (case mainT_range env g rs tc of (rest, tc) \<Rightarrow>
              ('' // Mount "'' @ ResourceDefinition.Name res @ ''" controller\<newline>'' @
               TAB @ tmp @ '' := New'' @ name @ ''Controller(service)\<newline>'' @
               TAB @ Target g @ ''.Mount'' @ name @ ''Controller(service, '' @ tmp @ '')\<newline>'' @
               rest, tc)))\<close>

definition mainT :: "env \<Rightarrow> Generator \<Rightarrow> 64 word \<Rightarrow> string \<times> 64 word" where
  \<open>mainT env g tc =
     (case mainT_range env g (Resources (API g)) tc of (mounts, tc) \<Rightarrow>
        (''\<newline>func main() {\<newline>'' @
         TAB @ ''// Create service\<newline>'' @
         TAB @ ''service := goa.New('' @ Quote env (APIDefinition.Name (API g)) @ '')\<newline>\<newline>'' @
         TAB @ ''// Mount middleware\<newline>'' @
         TAB @ ''service.Use(middleware.RequestID())\<newline>'' @
         TAB @ ''service.Use(middleware.LogRequest(true))\<newline>'' @
         TAB @ ''service.Use(middleware.ErrorHandler(service, true))\<newline>'' @
         TAB @ ''service.Use(middleware.Recover())\<newline>'' @
         ''\<newline>'' @
         mounts @
         ''\<newline>\<newline>'' @
         TAB @ ''// Start service\<newline>'' @
         TAB @ ''if err := service.ListenAndServe(":'' @ getPort env (Host (API g)) @ ''"); err != nil {\<newline>'' @
         TAB @ TAB @ ''service.LogError("startup", "err", err)\<newline>'' @
         TAB @ ''}\<newline>'' @
         ''}\<newline>'', tc))\<close>

section \<open>The scaffold emitter\<close>

text \<open>
  Modelled from the spec: \<^verbatim>\<open>IterateResources\<close> and \<^verbatim>\<open>IterateActions\<close> of the design
  package call the iterator on each entry in the deterministic order and stop at the
  first error it returns, which they return.
\<close>

fun Iterate :: "('a \<Rightarrow> 's \<Rightarrow> error option \<times> 's) \<Rightarrow> 'a list \<Rightarrow> 's \<Rightarrow> error option \<times> 's" where
  "Iterate it [] s = (None, s)"
| "Iterate it (x # xs) s =
     (case it x s of
        (Some e, s') \<Rightarrow> (Some e, s')
      | (None, s') \<Rightarrow> Iterate it xs s')"

definition IterateResources ::
  "APIDefinition \<Rightarrow> (ResourceDefinition \<Rightarrow> 's \<Rightarrow> error option \<times> 's) \<Rightarrow> 's \<Rightarrow> error option \<times> 's" where
  "IterateResources api it s = Iterate it (Resources api) s"

definition IterateActions ::
  "ResourceDefinition \<Rightarrow> (ActionDefinition \<Rightarrow> 's \<Rightarrow> error option \<times> 's) \<Rightarrow> 's \<Rightarrow> error option \<times> 's" where
  "IterateActions r it s = Iterate it (Actions r) s"

text \<open>
  \<^verbatim>\<open>createMainFile\<close>. The expansion of the main template advances the counter of
  \<^verbatim>\<open>tempvar\<close>; when the execution fails the counter is taken as after the whole
  expansion.
\<close>

definition createMainFile :: "env \<Rightarrow> string \<Rightarrow> Generator \<times> world \<Rightarrow> error option \<times> Generator \<times> world" where
  \<open>createMainFile env mainFile = (\<lambda>(g, w).
     (let g = g\<lparr>genfiles := genfiles g @ [mainFile]\<rparr>
      in case SourceFileFor env mainFile of
           Some err \<Rightarrow> (Some err, g, w)
         | None \<Rightarrow>
             (case PackagePath env (OutDir g) of
                Inl err \<Rightarrow> (Some err, g, w)
              | Inr outPkg \<Rightarrow>
                  (let appPkg = PathJoin env outPkg ''app'';
                       imports = [''time'', ''github.com/goadesign/goa'',
                                  ''github.com/goadesign/goa/middleware'', appPkg];
                       w = Write mainFile (''//go:generate goagen bootstrap -d '' @ DesignPkg g @
                                           ''\<newline>\<newline>'') w;
                       w = WriteHeader env mainFile [] ''main'' imports w
                   in case mainT env g (tempCount w) of (text, tc) \<Rightarrow>
                        (case ExecuteTemplate env mainFile ''main'' text (w\<lparr>tempCount := tc\<rparr>) of
                           (Some err, w) \<Rightarrow> (Some err, g, w)
                         | (None, w) \<Rightarrow>
                             (case FormatCode env mainFile w of (err, w) \<Rightarrow> (err, g, w)))))))\<close>

text \<open>
  The iterator that \<^verbatim>\<open>Generate\<close> passes to \<^verbatim>\<open>IterateActions\<close>, and the one it passes
  to \<^verbatim>\<open>IterateResources\<close>. The second one captures the result variable \<^verbatim>\<open>err\<close> of
  \<^verbatim>\<open>Generate\<close>: the parameter \<open>err\<close> is the value of that variable during the
  iteration. Three of its returns read \<^verbatim>\<open>return err\<close> and one \<^verbatim>\<open>return err2\<close>.
  The file name is appended to \<^verbatim>\<open>genfiles\<close> before the file is opened.
\<close>

definition genAction :: "env \<Rightarrow> Generator \<Rightarrow> string \<Rightarrow> ActionDefinition \<Rightarrow> world \<Rightarrow> error option \<times> world" where
  "genAction env g file a w =
     (if WebSocket a then ExecuteTemplate env file ''actionWS'' (actionWST env g a) w
      else ExecuteTemplate env file ''action'' (actionT env g a) w)"

definition genResource ::
  "env \<Rightarrow> string list \<Rightarrow> error option \<Rightarrow> ResourceDefinition \<Rightarrow> Generator \<times> world \<Rightarrow>
   error option \<times> Generator \<times> world" where
  "genResource env imports err r = (\<lambda>(g, w).
     (let filename = Join env (OutDir g) (SnakeCase env (ResourceDefinition.Name r) @ ''.go'');
          w = (if Force g then Remove filename w else w)
      in if Stat w filename \<noteq> None
         then
           (let g = g\<lparr>genfiles := genfiles g @ [filename]\<rparr>
            in case SourceFileFor env filename of
                 Some err2 \<Rightarrow> (err, g, w)
               | None \<Rightarrow>
                   (let w = WriteHeader env filename [] ''main'' imports w
                    in case ExecuteTemplate env filename ''controller'' (ctrlT env r) w of
                         (Some err2, w) \<Rightarrow> (err, g, w)
                       | (None, w) \<Rightarrow>
                           (case IterateActions r (genAction env g filename) w of
                              (Some err2, w) \<Rightarrow> (err, g, w)
                            | (None, w) \<Rightarrow>
                                (case FormatCode env filename w of
                                   (Some err2, w) \<Rightarrow> (Some err2, g, w)
                                 | (None, w) \<Rightarrow> (None, g, w)))))
         else (None, g, w)))"

text \<open>
  The deferred function of \<^verbatim>\<open>Generate\<close>: it runs at every return and calls
  \<^verbatim>\<open>Cleanup\<close> when the result \<^verbatim>\<open>err\<close> is not \<^verbatim>\<open>nil\<close>. A result is \<open>Inl e\<close> for
  the error \<open>e\<close> (the file list is \<^verbatim>\<open>nil\<close> then) and \<open>Inr files\<close> otherwise.
\<close>

definition deferred :: "error + string list \<Rightarrow> Generator \<times> world \<Rightarrow> (error + string list) \<times> Generator \<times> world" where
  "deferred res = (\<lambda>(g, w).
     (case res of
        Inl err \<Rightarrow> (res, Cleanup g w)
      | Inr files \<Rightarrow> (res, g, w)))"

text \<open>
  The method \<^verbatim>\<open>Generate\<close>. The goroutine it starts first waits for an interrupt signal
  and is left out: the model is a run that no signal interrupts. When
  \<^verbatim>\<open>IterateResources\<close> is called the variable \<^verbatim>\<open>err\<close> is \<^verbatim>\<open>nil\<close> on both paths
  (\<^verbatim>\<open>os.Stat\<close> succeeded, or \<^verbatim>\<open>createMainFile\<close> returned \<^verbatim>\<open>nil\<close>), and it is
  assigned again only when \<^verbatim>\<open>IterateResources\<close> has returned: the iterator gets
  \<open>None\<close> for it.
\<close>

definition Generate :: "env \<Rightarrow> Generator \<Rightarrow> world \<Rightarrow> (error + string list) \<times> Generator \<times> world" where
  "Generate env g w =
     (let g = (if Target g = [] then g\<lparr>Target := ''app''\<rparr> else g);
          w = w\<lparr>Reserved := insert (Target g) (Reserved w)\<rparr>;
          mainFile = Join env (OutDir g) ''main.go'';
          w = (if Force g then Remove mainFile w else w)
      in case PackagePath env (OutDir g) of
           Inl err \<Rightarrow> deferred (Inl err) (g, w)
         | Inr imp \<Rightarrow>
             (let imp = PathJoin env (ToSlash env imp) ''app''
              in case (case Stat w mainFile of
                         Some err \<Rightarrow> createMainFile env mainFile (g, w)
                       | None \<Rightarrow> (None, g, w)) of
                   (Some err, g, w) \<Rightarrow> deferred (Inl err) (g, w)
                 | (None, g, w) \<Rightarrow>
                     (let imports = [''io'', ''github.com/goadesign/goa'', imp,
                                     ''golang.org/x/net/websocket'']
                      in case IterateResources (API g) (genResource env imports None) (g, w) of
                           (Some err, g, w) \<Rightarrow> deferred (Inl err) (g, w)
                         | (None, g, w) \<Rightarrow> deferred (Inr (genfiles g)) (g, w))))"

section \<open>Target files\<close>

text \<open>
  The paths that \<^verbatim>\<open>Generate\<close> computes: \<^verbatim>\<open>mainFile\<close> for the entry point and
  \<^verbatim>\<open>filename\<close> for each resource; together the target files of a run.
\<close>

definition mainFile :: "env \<Rightarrow> Generator \<Rightarrow> string" where
  "mainFile env g = Join env (OutDir g) ''main.go''"




section \<open>An example design\<close>

text \<open>
  A design with one media type (views \<open>default\<close> and \<open>tiny\<close>), some responses, one
  resource \<open>bottle\<close> with one action \<open>show\<close>, and simple collaborators: the theorems
  below are applied to them.
\<close>

definition mt_bottle :: MediaTypeDefinition where
  "mt_bottle = \<lparr>Identifier = ''application/vnd.bottle'', TypeName = ''Bottle'',
     Attributes = [(''id'', ''Integer''), (''name'', ''String'')], Required = [''id''],
     Views = [(''default'', [''id'', ''name'']), (''tiny'', [''id''])], Links = [],
     ErrorShaped = False\<rparr>"

definition resp_ok :: ResponseDefinition where
  "resp_ok = \<lparr>ResponseDefinition.Name = ''OK'', Status = 200,
     MediaType = ''application/vnd.bottle'', ViewName = []\<rparr>"

definition resp_tiny :: ResponseDefinition where
  "resp_tiny = \<lparr>ResponseDefinition.Name = ''OK'', Status = 200,
     MediaType = ''application/vnd.bottle'', ViewName = ''tiny''\<rparr>"

definition resp_lost :: ResponseDefinition where
  "resp_lost = \<lparr>ResponseDefinition.Name = ''OK'', Status = 200,
     MediaType = ''application/vnd.cellar'', ViewName = []\<rparr>"

definition resp_huge :: ResponseDefinition where
  "resp_huge = \<lparr>ResponseDefinition.Name = ''OK'', Status = 200,
     MediaType = ''application/vnd.bottle'', ViewName = ''huge''\<rparr>"

definition resp_created :: ResponseDefinition where
  "resp_created = \<lparr>ResponseDefinition.Name = ''Created'', Status = 201,
     MediaType = ''application/vnd.bottle'', ViewName = []\<rparr>"

definition resp_notfound :: ResponseDefinition where
  "resp_notfound = \<lparr>ResponseDefinition.Name = ''NotFound'', Status = 404,
     MediaType = [], ViewName = []\<rparr>"

definition act :: "ResponseDefinition list \<Rightarrow> ActionDefinition" where
  "act rs = \<lparr>ActionDefinition.Name = ''show'', Parent = ''bottle'', Responses = rs,
     WebSocket = False\<rparr>"

definition goify0 :: "string \<Rightarrow> bool \<Rightarrow> string" where
  "goify0 s firstUpper =
     (if \<not> firstUpper then s
      else if s = ''tiny'' then ''Tiny''
      else if s = ''bottle'' then ''Bottle''
      else if s = ''show'' then ''Show''
      else s)"

definition project0 :: "MediaTypeDefinition \<Rightarrow> string \<Rightarrow> error + MediaTypeDefinition" where
  "project0 mt view =
     (case map_of (Views mt) view of
        None \<Rightarrow> Inl (Error ''unknown view'')
      | Some atts \<Rightarrow>
          Inr (mt\<lparr>Attributes := filter (\<lambda>att. fst att \<in> set atts) (Attributes mt)\<rparr>))"

definition env0 :: env where
  "env0 = \<lparr>MediaTypes = [''application/vnd.bottle'' \<mapsto> mt_bottle],
     CanonicalIdentifier = (\<lambda>s. s),
     Project = project0,
     GoTypeRef = (\<lambda>mt req n pkg. ''*'' @ TypeName mt),
     GoNativeType = TypeName,
     Goify = goify0,
     SnakeCase = (\<lambda>s. s),
     PackagePath = (\<lambda>dir. Inr dir),
     Join = (\<lambda>dir file. dir @ ''/'' @ file),
     ToSlash = (\<lambda>s. s),
     PathJoin = (\<lambda>dir file. dir @ ''/'' @ file),
     SourceFileFor = (\<lambda>file. None),
     Header = (\<lambda>title pack imports. ''package '' @ pack @ ''\<newline>''),
     Format = Inr,
     Quote = (\<lambda>s. [CHR 0x22] @ s @ [CHR 0x22]),
     SplitHostPort = (\<lambda>s. Inl (Error ''missing port'')),
     TemplateError = (\<lambda>name text. None)\<rparr>"

definition g0 :: Generator where
  "g0 = \<lparr>API = \<lparr>APIDefinition.Name = ''cellar'', Host = ''localhost'',
             Resources = [\<lparr>ResourceDefinition.Name = ''bottle'',
                           Actions = [act [resp_notfound, resp_ok]]\<rparr>]\<rparr>,
     OutDir = ''out'', DesignPkg = ''design'', Target = ''app'', Force = False,
     genfiles = []\<rparr>"

text \<open>The same generator for a design whose 200 response names an unknown media type.\<close>

definition g_lost :: Generator where
  "g_lost = g0\<lparr>API := \<lparr>APIDefinition.Name = ''cellar'', Host = ''localhost'',
             Resources = [\<lparr>ResourceDefinition.Name = ''bottle'',
                           Actions = [act [resp_notfound, resp_lost]]\<rparr>]\<rparr>\<rparr>"

text \<open>An empty output directory, before any call of \<^verbatim>\<open>tempvar\<close>.\<close>

definition w0 :: world where
  "w0 = \<lparr>fs = Map.empty, tempCount = 0, Reserved = {}\<rparr>"

text \<open>
  Collaborators that fail: a template engine that fails on the controller template
  before it writes anything, a formatter that rejects every file, and a
  \<^verbatim>\<open>PackagePath\<close> that finds no package. An output directory that holds the main
  file, and one that holds hand-edited target files.
\<close>

definition env_fail :: env where
  "env_fail = env0\<lparr>TemplateError := (\<lambda>name body.
      if name = ''controller'' then Some (0, Error ''controller template'') else None)\<rparr>"

definition env_fmt :: env where
  "env_fmt = env0\<lparr>Format := (\<lambda>src. Inl (Error ''gofmt''))\<rparr>"


definition w_main :: world where
  "w_main = w0\<lparr>fs := [''out/main.go'' \<mapsto> ''package main\<newline>'']\<rparr>"


section \<open>Results on the response resolver\<close>

lemmas gen_defs = Generate_def deferred_def createMainFile_def genResource_def genAction_def
  IterateResources_def IterateActions_def ExecuteTemplate_def FormatCode_def WriteHeader_def
  Write_def Stat_def Remove_def Cleanup_def mainT_def getPort_def tempvar_def

text \<open>When \<^verbatim>\<open>okResp\<close> returns the \<^verbatim>\<open>nil\<close> map: one case per early return.\<close>

lemma okResp_None_iff:
  "(okResp env g a = None) =
   (case find (\<lambda>resp. Status resp = 200) (Responses a) of
      None \<Rightarrow> True
    | Some ok \<Rightarrow>
       (case MediaTypes env (CanonicalIdentifier env (MediaType ok)) of
          None \<Rightarrow> True
        | Some mt \<Rightarrow>
            (case Project env mt (if ViewName ok = [] then ''default'' else ViewName ok) of
               Inl e \<Rightarrow> True
             | Inr pmt \<Rightarrow> False)))"
  by (simp add: okResp_def DefaultView_def Let_def split: option.splits sum.splits)

text \<open>The map it returns otherwise, with the two prefix tests written as cases.\<close>

lemma okResp_resolved:
  assumes "find (\<lambda>resp. Status resp = 200) (Responses a) = Some ok"
    and "MediaTypes env (CanonicalIdentifier env (MediaType ok)) = Some mt"
    and "Project env mt (if ViewName ok = [] then ''default'' else ViewName ok) = Inr pmt"
  shows "okResp env g a =
     Some \<lparr>okRespMap.Name = ResponseDefinition.Name ok @
              (if (if ViewName ok = [] then ''default'' else ViewName ok) \<noteq> ''default''
               then Goify env (if ViewName ok = [] then ''default'' else ViewName ok) True
               else []),
           GoType = GoNativeType env pmt,
           TypeRef =
             (if IsError pmt then ''goa.ErrInternal(\"not implemented\")''
              else (if prefix ''*'' (GoTypeRef env pmt (AllRequired pmt) 1 False)
                    then ''&'' @ Target g @ ''.'' @
                         drop 1 (GoTypeRef env pmt (AllRequired pmt) 1 False)
                    else if prefix ''*'' (Target g)
                    then ''&'' @ drop 1 (Target g) @ ''.'' @
                         GoTypeRef env pmt (AllRequired pmt) 1 False
                    else Target g @ ''.'' @ GoTypeRef env pmt (AllRequired pmt) 1 False) @
                   ''{}'')\<rparr>"
  using assms
  apply (simp add: okResp_def DefaultView_def Let_def)
  apply (cases "Target g")
   apply (auto simp: prefix_def)
  done

text \<open>The last line of a handler body: \<^verbatim>\<open>return nil\<close> exactly when the map is \<^verbatim>\<open>nil\<close>.\<close>

lemma actionT_suffix_nil:
  "okResp env g a = None \<Longrightarrow> suffix '' return nil\<newline>}\<newline>'' (actionT env g a)"
  unfolding actionT_def Let_def by (simp add: suffix_def)

lemma actionT_suffix_some:
  "okResp env g a = Some m \<Longrightarrow> \<not> suffix '' return nil\<newline>}\<newline>'' (actionT env g a)"
  unfolding actionT_def Let_def by (simp add: suffix_to_prefix)

lemma actionT_returns_nil_iff:
  "suffix '' return nil\<newline>}\<newline>'' (actionT env g a) = (okResp env g a = None)"
  using actionT_suffix_nil actionT_suffix_some by (cases "okResp env g a") auto

lemma genAction_no_error:
  "TemplateError env ''action'' (actionT env g a) = None \<Longrightarrow> \<not> WebSocket a \<Longrightarrow>
   genAction env g file a w = (None, Write file (actionT env g a) w)"
  by (simp add: genAction_def ExecuteTemplate_def)


subsection \<open>C2: a descriptor only for status 200\<close>

text \<open>
  C2, as stated, fails: the action below has a response with status 200 (and one with
  404), its media-type identifier is not in the global mapping, and \<^verbatim>\<open>okResp\<close>
  returns the \<^verbatim>\<open>nil\<close> map. A response with status 200 is necessary for a
  descriptor, not sufficient.
\<close>

theorem okResp_200_unresolved:
  "map Status (Responses (act [resp_notfound, resp_lost])) = [404, 200] \<and>
   okResp env0 g0 (act [resp_notfound, resp_lost]) = None"
  by (simp add: okResp_def env0_def g0_def act_def resp_notfound_def resp_lost_def)

text \<open>
  C2, amended: \<^verbatim>\<open>okResp\<close> produces a descriptor if and only if the first response
  with status exactly 200 (in the order of the loop) has a media-type identifier that
  resolves in the global mapping and a projection through the effective view that
  succeeds. So when no response has status 200 (only 404, or 201) it returns the
  \<^verbatim>\<open>nil\<close> map; and the emitted handler body ends with \<^verbatim>\<open>return nil\<close> exactly when
  \<^verbatim>\<open>okResp\<close> returns the \<^verbatim>\<open>nil\<close> map.
\<close>

theorem okResp_descriptor_iff:
  "((okResp env g a \<noteq> None) =
     (\<exists>ok mt pmt.
        find (\<lambda>resp. Status resp = 200) (Responses a) = Some ok \<and>
        MediaTypes env (CanonicalIdentifier env (MediaType ok)) = Some mt \<and>
        Project env mt (if ViewName ok = [] then ''default'' else ViewName ok) = Inr pmt)) \<and>
   ((\<forall>resp \<in> set (Responses a). Status resp \<noteq> 200) \<longrightarrow> okResp env g a = None) \<and>
   (suffix '' return nil\<newline>}\<newline>'' (actionT env g a) = (okResp env g a = None))"
proof -
  have a: "(okResp env g a \<noteq> None) =
     (\<exists>ok mt pmt.
        find (\<lambda>resp. Status resp = 200) (Responses a) = Some ok \<and>
        MediaTypes env (CanonicalIdentifier env (MediaType ok)) = Some mt \<and>
        Project env mt (if ViewName ok = [] then ''default'' else ViewName ok) = Inr pmt)"
    unfolding okResp_None_iff by (auto split: option.splits sum.splits)
  have b: "(\<forall>resp \<in> set (Responses a). Status resp \<noteq> 200) \<longrightarrow> okResp env g a = None"
  proof
    assume "\<forall>resp \<in> set (Responses a). Status resp \<noteq> 200"
    then have "find (\<lambda>resp. Status resp = 200) (Responses a) = None"
      by (simp add: find_None_iff)
    then show "okResp env g a = None" by (simp add: okResp_None_iff)
  qed
  from a b actionT_returns_nil_iff show ?thesis by blast
qed

text \<open>
  Witness for C2: an action with the responses 404 and 201 gets no descriptor and a
  body that returns \<^verbatim>\<open>nil\<close>; with 404 and a resolvable 200 it gets a descriptor and
  a body that does not.
\<close>

theorem okResp_descriptor_iff_witness:
  "map Status (Responses (act [resp_notfound, resp_created])) = [404, 201] \<and>
   okResp env0 g0 (act [resp_notfound, resp_created]) = None \<and>
   suffix '' return nil\<newline>}\<newline>'' (actionT env0 g0 (act [resp_notfound, resp_created])) \<and>
   map Status (Responses (act [resp_notfound, resp_ok])) = [404, 200] \<and>
   okResp env0 g0 (act [resp_notfound, resp_ok]) \<noteq> None \<and>
   \<not> suffix '' return nil\<newline>}\<newline>'' (actionT env0 g0 (act [resp_notfound, resp_ok]))"
proof -
  let ?a = "act [resp_notfound, resp_created]"
  let ?b = "act [resp_notfound, resp_ok]"
  have s: "map Status (Responses ?a) = [404, 201]"
    by (simp add: act_def resp_notfound_def resp_created_def)
  then have h: "\<forall>resp \<in> set (Responses ?a). Status resp \<noteq> 200"
    by (simp add: act_def resp_notfound_def resp_created_def)
  from okResp_descriptor_iff [of env0 g0 ?a] h
  have a: "okResp env0 g0 ?a = None \<and> suffix '' return nil\<newline>}\<newline>'' (actionT env0 g0 ?a)"
    by blast
  have s2: "map Status (Responses ?b) = [404, 200]"
    by (simp add: act_def resp_notfound_def resp_ok_def)
  have f: "find (\<lambda>resp. Status resp = 200) (Responses ?b) = Some resp_ok"
    by (simp add: act_def resp_notfound_def resp_ok_def)
  have m: "MediaTypes env0 (CanonicalIdentifier env0 (MediaType resp_ok)) = Some mt_bottle"
    by (simp add: env0_def resp_ok_def)
  have p: "Project env0 mt_bottle (if ViewName resp_ok = [] then ''default'' else ViewName resp_ok)
             = Inr mt_bottle"
    by (simp add: env0_def project0_def mt_bottle_def resp_ok_def)
  from f m p have ex: "\<exists>ok mt pmt.
        find (\<lambda>resp. Status resp = 200) (Responses ?b) = Some ok \<and>
        MediaTypes env0 (CanonicalIdentifier env0 (MediaType ok)) = Some mt \<and>
        Project env0 mt (if ViewName ok = [] then ''default'' else ViewName ok) = Inr pmt"
    by blast
  from okResp_descriptor_iff [of env0 g0 ?b] ex
  have b: "okResp env0 g0 ?b \<noteq> None \<and> \<not> suffix '' return nil\<newline>}\<newline>'' (actionT env0 g0 ?b)"
    by simp
  from s a s2 b show ?thesis by blast
qed

subsection \<open>C3: an unresolvable media type or view\<close>

text \<open>
  C3: when the first response with status 200 has a media-type identifier that is not
  in the global mapping, or the projection of its media type through the effective
  view fails, \<^verbatim>\<open>okResp\<close> returns the \<^verbatim>\<open>nil\<close> map, the handler body returns
  \<^verbatim>\<open>nil\<close>, and the iterator of the action returns no error (when the template engine
  reports none): the run goes on.
\<close>

theorem okResp_unresolved_degrades:
  assumes "find (\<lambda>resp. Status resp = 200) (Responses a) = Some ok"
    and "MediaTypes env (CanonicalIdentifier env (MediaType ok)) = None \<or>
         (\<exists>mt e. MediaTypes env (CanonicalIdentifier env (MediaType ok)) = Some mt \<and>
                 Project env mt (if ViewName ok = [] then ''default'' else ViewName ok) = Inl e)"
  shows "okResp env g a = None \<and>
         suffix '' return nil\<newline>}\<newline>'' (actionT env g a) \<and>
         (TemplateError env ''action'' (actionT env g a) = None \<and> \<not> WebSocket a \<longrightarrow>
            genAction env g file a w = (None, Write file (actionT env g a) w))"
proof -
  from assms have n: "okResp env g a = None"
    by (auto simp: okResp_None_iff)
  with actionT_suffix_nil genAction_no_error show ?thesis by blast
qed

text \<open>
  Witness for C3: a 200 response whose media type is not in the mapping, and one whose
  view the media type does not have; the run on the design with the first one returns
  both files and no error.
\<close>

theorem okResp_unresolved_degrades_witness:
  "find (\<lambda>resp. Status resp = 200) (Responses (act [resp_notfound, resp_lost])) = Some resp_lost \<and>
   MediaTypes env0 (CanonicalIdentifier env0 (MediaType resp_lost)) = None \<and>
   okResp env0 g0 (act [resp_notfound, resp_lost]) = None \<and>
   genAction env0 g0 ''out/bottle.go'' (act [resp_notfound, resp_lost]) w0 =
     (None, Write ''out/bottle.go'' (actionT env0 g0 (act [resp_notfound, resp_lost])) w0) \<and>
   find (\<lambda>resp. Status resp = 200) (Responses (act [resp_huge])) = Some resp_huge \<and>
   MediaTypes env0 (CanonicalIdentifier env0 (MediaType resp_huge)) = Some mt_bottle \<and>
   Project env0 mt_bottle ''huge'' = Inl (Error ''unknown view'') \<and>
   okResp env0 g0 (act [resp_huge]) = None \<and>
   fst (Generate env0 g_lost w0) = Inr [''out/main.go'', ''out/bottle.go'']"
proof -
  let ?a = "act [resp_notfound, resp_lost]"
  have run: "fst (Generate env0 g_lost w0) = Inr [''out/main.go'', ''out/bottle.go'']"
    by (simp add: gen_defs env0_def g_lost_def g0_def w0_def act_def Let_def)
  have f1: "find (\<lambda>resp. Status resp = 200) (Responses ?a) = Some resp_lost"
    by (simp add: act_def resp_notfound_def resp_lost_def)
  have m1: "MediaTypes env0 (CanonicalIdentifier env0 (MediaType resp_lost)) = None"
    by (simp add: env0_def resp_lost_def)
  have t1: "TemplateError env0 ''action'' (actionT env0 g0 ?a) = None"
    by (simp add: env0_def)
  have ws: "\<not> WebSocket ?a" by (simp add: act_def)
  have f2: "find (\<lambda>resp. Status resp = 200) (Responses (act [resp_huge])) = Some resp_huge"
    by (simp add: act_def resp_huge_def)
  have m2: "MediaTypes env0 (CanonicalIdentifier env0 (MediaType resp_huge)) = Some mt_bottle"
    by (simp add: env0_def resp_huge_def)
  have p2: "Project env0 mt_bottle ''huge'' = Inl (Error ''unknown view'')"
    by (simp add: env0_def project0_def mt_bottle_def)
  have v2: "(if ViewName resp_huge = [] then ''default'' else ViewName resp_huge) = ''huge''"
    by (simp add: resp_huge_def)
  from okResp_unresolved_degrades [OF f1, of env0 g0 "''out/bottle.go''" w0] m1 t1 ws
  have a: "okResp env0 g0 ?a = None \<and>
     genAction env0 g0 ''out/bottle.go'' ?a w0 =
       (None, Write ''out/bottle.go'' (actionT env0 g0 ?a) w0)"
    by blast
  from okResp_unresolved_degrades [OF f2, of env0 g0] m2 p2 v2
  have b: "okResp env0 g0 (act [resp_huge]) = None" by simp
  from f1 m1 a f2 m2 p2 b run show ?thesis by blast
qed

subsection \<open>C4: the effective view and the display name\<close>

text \<open>
  C4: for a resolvable 200 response the media type is projected through the effective
  view, which is the view of the response when that is not empty and \<open>default\<close>
  otherwise (the descriptor is built from that projection); the name of the
  descriptor is the name of the response when the effective view is \<open>default\<close>, and
  that name followed by \<^verbatim>\<open>Goify\<close> of the view otherwise. The two names coincide only
  if \<^verbatim>\<open>Goify\<close> returns the empty string for the view.
\<close>

theorem okResp_view_and_name:
  assumes "find (\<lambda>resp. Status resp = 200) (Responses a) = Some ok"
    and "MediaTypes env (CanonicalIdentifier env (MediaType ok)) = Some mt"
    and "view = (if ViewName ok = [] then ''default'' else ViewName ok)"
    and "Project env mt view = Inr pmt"
  shows "\<exists>d. okResp env g a = Some d \<and> GoType d = GoNativeType env pmt \<and>
           (view = ''default'' \<longrightarrow> okRespMap.Name d = ResponseDefinition.Name ok) \<and>
           (view \<noteq> ''default'' \<longrightarrow>
              okRespMap.Name d = ResponseDefinition.Name ok @ Goify env (ViewName ok) True) \<and>
           ((okRespMap.Name d = ResponseDefinition.Name ok) =
              (view = ''default'' \<or> Goify env view True = []))"
  using okResp_resolved [OF assms(1,2), of pmt g] assms(3,4) by auto

text \<open>
  Witness for C4: with the view \<open>tiny\<close> the name is \<open>OKTiny\<close>, with no view it is
  \<open>OK\<close>.
\<close>

theorem okResp_view_and_name_witness:
  "find (\<lambda>resp. Status resp = 200) (Responses (act [resp_notfound, resp_tiny])) = Some resp_tiny \<and>
   MediaTypes env0 (CanonicalIdentifier env0 (MediaType resp_tiny)) = Some mt_bottle \<and>
   Project env0 mt_bottle ''tiny'' = Inr (mt_bottle\<lparr>Attributes := [(''id'', ''Integer'')]\<rparr>) \<and>
   map_option okRespMap.Name (okResp env0 g0 (act [resp_notfound, resp_tiny])) = Some ''OKTiny'' \<and>
   find (\<lambda>resp. Status resp = 200) (Responses (act [resp_notfound, resp_ok])) = Some resp_ok \<and>
   MediaTypes env0 (CanonicalIdentifier env0 (MediaType resp_ok)) = Some mt_bottle \<and>
   Project env0 mt_bottle ''default'' = Inr mt_bottle \<and>
   map_option okRespMap.Name (okResp env0 g0 (act [resp_notfound, resp_ok])) = Some ''OK''"
proof -
  let ?a = "act [resp_notfound, resp_tiny]"
  let ?b = "act [resp_notfound, resp_ok]"
  have f1: "find (\<lambda>resp. Status resp = 200) (Responses ?a) = Some resp_tiny"
    by (simp add: act_def resp_notfound_def resp_tiny_def)
  have m1: "MediaTypes env0 (CanonicalIdentifier env0 (MediaType resp_tiny)) = Some mt_bottle"
    by (simp add: env0_def resp_tiny_def)
  have v1: "''tiny'' = (if ViewName resp_tiny = [] then ''default'' else ViewName resp_tiny)"
    by (simp add: resp_tiny_def)
  have p1: "Project env0 mt_bottle ''tiny'' = Inr (mt_bottle\<lparr>Attributes := [(''id'', ''Integer'')]\<rparr>)"
    by (simp add: env0_def project0_def mt_bottle_def)
  have g1: "Goify env0 (ViewName resp_tiny) True = ''Tiny''"
    by (simp add: env0_def goify0_def resp_tiny_def)
  have n1: "ResponseDefinition.Name resp_tiny = ''OK''" by (simp add: resp_tiny_def)
  from okResp_view_and_name [OF f1 m1 v1 p1, of g0] g1 n1
  have a: "map_option okRespMap.Name (okResp env0 g0 ?a) = Some ''OKTiny''"
    by auto
  have f2: "find (\<lambda>resp. Status resp = 200) (Responses ?b) = Some resp_ok"
    by (simp add: act_def resp_notfound_def resp_ok_def)
  have m2: "MediaTypes env0 (CanonicalIdentifier env0 (MediaType resp_ok)) = Some mt_bottle"
    by (simp add: env0_def resp_ok_def)
  have v2: "''default'' = (if ViewName resp_ok = [] then ''default'' else ViewName resp_ok)"
    by (simp add: resp_ok_def)
  have p2: "Project env0 mt_bottle ''default'' = Inr mt_bottle"
    by (simp add: env0_def project0_def mt_bottle_def)
  have n2: "ResponseDefinition.Name resp_ok = ''OK''" by (simp add: resp_ok_def)
  from okResp_view_and_name [OF f2 m2 v2 p2, of g0] n2
  have b: "map_option okRespMap.Name (okResp env0 g0 ?b) = Some ''OK''"
    by auto
  from f1 m1 p1 a f2 m2 p2 b show ?thesis by blast
qed

subsection \<open>C7: the resolution is deterministic\<close>



subsection \<open>C10: the constructor expression\<close>

text \<open>
  C10: for a resolvable 200 response whose projection is not error-shaped, the
  constructor expression ends with \<open>{}\<close> and does not begin with \<open>*\<close>. When the type
  reference of \<^verbatim>\<open>GoTypeRef\<close> begins with \<open>*\<close>, the expression is \<open>&\<close>, the target
  package, a dot, the type reference without its \<open>*\<close>, and \<open>{}\<close>; otherwise it is the
  target package, a dot, the type reference and \<open>{}\<close> (the target being a package
  name, which does not begin with \<open>*\<close>).
\<close>

theorem okResp_TypeRef:
  assumes "find (\<lambda>resp. Status resp = 200) (Responses a) = Some ok"
    and "MediaTypes env (CanonicalIdentifier env (MediaType ok)) = Some mt"
    and "Project env mt (if ViewName ok = [] then ''default'' else ViewName ok) = Inr pmt"
    and "\<not> IsError pmt"
    and "name = GoTypeRef env pmt (AllRequired pmt) 1 False"
  shows "\<exists>d. okResp env g a = Some d \<and>
           suffix ''{}'' (TypeRef d) \<and> \<not> prefix ''*'' (TypeRef d) \<and>
           (prefix ''*'' name \<longrightarrow> TypeRef d = ''&'' @ Target g @ ''.'' @ drop 1 name @ ''{}'') \<and>
           (\<not> prefix ''*'' name \<and> \<not> prefix ''*'' (Target g) \<longrightarrow>
              TypeRef d = Target g @ ''.'' @ name @ ''{}'')"
  using okResp_resolved [OF assms(1,2,3), of g] assms(4,5)
  by (cases "Target g") (auto simp: suffix_def prefix_def)

text \<open>
  Witness for C10: the type reference \<open>*Bottle\<close> gives \<open>&app.Bottle{}\<close>, the type
  reference \<open>Bottle\<close> gives \<open>app.Bottle{}\<close>.
\<close>

theorem okResp_TypeRef_witness:
  "find (\<lambda>resp. Status resp = 200) (Responses (act [resp_notfound, resp_ok])) = Some resp_ok \<and>
   MediaTypes env0 (CanonicalIdentifier env0 (MediaType resp_ok)) = Some mt_bottle \<and>
   Project env0 mt_bottle ''default'' = Inr mt_bottle \<and>
   \<not> IsError mt_bottle \<and>
   GoTypeRef env0 mt_bottle (AllRequired mt_bottle) 1 False = ''*Bottle'' \<and>
   map_option TypeRef (okResp env0 g0 (act [resp_notfound, resp_ok])) = Some ''&app.Bottle{}'' \<and>
   GoTypeRef (env0\<lparr>GoTypeRef := \<lambda>mt req n pkg. TypeName mt\<rparr>) mt_bottle
     (AllRequired mt_bottle) 1 False = ''Bottle'' \<and>
   map_option TypeRef (okResp (env0\<lparr>GoTypeRef := \<lambda>mt req n pkg. TypeName mt\<rparr>) g0
     (act [resp_notfound, resp_ok])) = Some ''app.Bottle{}''"
proof -
  let ?a = "act [resp_notfound, resp_ok]"
  let ?env = "env0\<lparr>GoTypeRef := \<lambda>mt req n pkg. TypeName mt\<rparr>"
  have f: "find (\<lambda>resp. Status resp = 200) (Responses ?a) = Some resp_ok"
    by (simp add: act_def resp_notfound_def resp_ok_def)
  have m: "MediaTypes env0 (CanonicalIdentifier env0 (MediaType resp_ok)) = Some mt_bottle"
    by (simp add: env0_def resp_ok_def)
  have m': "MediaTypes ?env (CanonicalIdentifier ?env (MediaType resp_ok)) = Some mt_bottle"
    by (simp add: env0_def resp_ok_def)
  have p: "Project env0 mt_bottle (if ViewName resp_ok = [] then ''default'' else ViewName resp_ok)
             = Inr mt_bottle"
    by (simp add: env0_def project0_def mt_bottle_def resp_ok_def)
  have p': "Project ?env mt_bottle (if ViewName resp_ok = [] then ''default'' else ViewName resp_ok)
              = Inr mt_bottle"
    by (simp add: env0_def project0_def mt_bottle_def resp_ok_def)
  have pd: "Project env0 mt_bottle ''default'' = Inr mt_bottle"
    by (simp add: env0_def project0_def mt_bottle_def)
  have e: "\<not> IsError mt_bottle" by (simp add: IsError_def mt_bottle_def)
  have n: "''*Bottle'' = GoTypeRef env0 mt_bottle (AllRequired mt_bottle) 1 False"
    by (simp add: env0_def mt_bottle_def)
  have n': "''Bottle'' = GoTypeRef ?env mt_bottle (AllRequired mt_bottle) 1 False"
    by (simp add: mt_bottle_def)
  have t: "Target g0 = ''app''" by (simp add: g0_def)
  from okResp_TypeRef [OF f m p e n, of g0] t
  have a: "map_option TypeRef (okResp env0 g0 ?a) = Some ''&app.Bottle{}''" by auto
  from okResp_TypeRef [OF f m' p' e n', of g0] t
  have b: "map_option TypeRef (okResp ?env g0 ?a) = Some ''app.Bottle{}''" by auto
  from f m pd e n n' a b show ?thesis by simp
qed

section \<open>Results on the temp-name allocator\<close>

text \<open>
  The digits that \<open>fmtDigits\<close> writes are read back to the number: the rendering is
  decimal, and two numbers with the same rendering are equal.
\<close>

lemma of_char_digit:
  assumes "d < 10"
  shows "of_char (digit d) = 48 + d"
proof -
  from assms have "d \<in> {0, 1, 2, 3, 4, 5, 6, 7, 8, 9}" by auto
  then show ?thesis by (auto simp: digit_def)
qed

lemma fmtDigits_value:
  "foldl (\<lambda>a c. 10 * a + (of_char c - 48)) 0 (fmtDigits u buf) =
   foldl (\<lambda>a c. 10 * a + (of_char c - 48)) (u::nat) buf"
proof (induction u buf rule: fmtDigits.induct)
  case (1 u buf)
  show ?case
  proof (cases "u < 10")
    case True
    then show ?thesis by (simp add: fmtDigits.simps [of u buf] of_char_digit)
  next
    case False
    with 1 show ?thesis
      by (simp add: fmtDigits.simps [of u buf] of_char_digit)
  qed
qed

lemma fmtDigits_inj:
  assumes "fmtDigits u [] = fmtDigits v []"
  shows "u = v"
proof -
  have "u = foldl (\<lambda>a c. 10 * a + (of_char c - 48)) 0 (fmtDigits u [])"
    by (simp only: fmtDigits_value foldl_Nil)
  also have "\<dots> = foldl (\<lambda>a c. 10 * a + (of_char c - 48)) 0 (fmtDigits v [])"
    by (simp only: assms)
  also have "\<dots> = v"
    by (simp only: fmtDigits_value foldl_Nil)
  finally show ?thesis .
qed

lemma fmtDigits_nonempty: "fmtDigits u buf \<noteq> []"
proof (induction u buf rule: fmtDigits.induct)
  case (1 u buf)
  then show ?case by (cases "u < 10") (simp_all add: fmtDigits.simps [of u buf])
qed

text \<open>The calls one by one: the \<open>k\<close>-th call is \<^verbatim>\<open>tempvar\<close> on the counter \<open>k - 1\<close>.\<close>

lemma tempvars_Suc:
  "tempvars (Suc n) tc =
     (fst (tempvar tc) # fst (tempvars n (snd (tempvar tc))), snd (tempvars n (snd (tempvar tc))))"
  by (simp split: prod.splits)

lemma tempvar_snd: "snd (tempvar tc) = tc + 1"
  by (simp add: tempvar_def Let_def)

lemma tempvars_length: "length (fst (tempvars n tc)) = n"
  by (induction n arbitrary: tc) (simp_all add: tempvars_Suc del: tempvars.simps(2))

lemma tempvars_snd: "snd (tempvars n tc) = tc + of_nat n"
  by (induction n arbitrary: tc) (simp_all add: tempvars_Suc tempvar_snd del: tempvars.simps(2))

lemma tempvars_nth: "k < n \<Longrightarrow> fst (tempvars n tc) ! k = fst (tempvar (tc + of_nat k))"
proof (induction n arbitrary: tc k)
  case 0
  then show ?case by simp
next
  case (Suc n)
  show ?case
  proof (cases k)
    case 0
    then show ?thesis by (simp add: tempvars_Suc del: tempvars.simps(2))
  next
    case (Suc j)
    with Suc.prems have "j < n" by simp
    from Suc.IH [OF this, of "tc + 1"] Suc show ?thesis
      by (simp add: tempvars_Suc tempvar_snd add.assoc del: tempvars.simps(2))
  qed
qed

text \<open>Below \<open>2 ^ 63\<close> the counter has not wrapped around.\<close>

lemma sint_of_nat_small:
  assumes "k < 2 ^ 63"
  shows "sint (of_nat k :: 64 word) = int k"
proof -
  from assms have "int k < 2 ^ 63"
    by (metis of_nat_less_iff of_nat_numeral of_nat_power)
  then have "signed_take_bit 63 (int k) = int k"
    by (intro signed_take_bit_int_eq_self) simp_all
  then show ?thesis by (simp only: signed_of_nat) simp
qed

lemma of_nat_eq_1: "k < 2 ^ 64 \<Longrightarrow> ((of_nat k :: 64 word) = 1) = (k = 1)"
proof -
  assume k: "k < 2 ^ 64"
  have "((of_nat k :: 64 word) = of_nat 1) = (take_bit 64 k = take_bit 64 (1::nat))"
    by (simp only: word_of_nat_eq_iff) simp
  also from k have "\<dots> = (k = 1)"
    by (simp add: take_bit_nat_eq_self)
  finally show ?thesis by simp
qed

lemma tempvar_at:
  assumes "1 \<le> k" and "k < 2 ^ 63"
  shows "fst (tempvar (of_nat (k - 1))) = (if k = 1 then ''c'' else ''c'' @ fmtDigits k [])"
proof -
  from assms(1) have s: "(of_nat (k - 1) :: 64 word) + 1 = of_nat k"
    by (simp add: of_nat_diff)
  from assms(2) have "k < 2 ^ 64" by simp
  from of_nat_eq_1 [OF this] sint_of_nat_small [OF assms(2)] s show ?thesis
    by (simp add: tempvar_def Let_def fmt_d_def)
qed

subsection \<open>C8: the names of consecutive calls\<close>

text \<open>
  C8, amended: for every \<open>N\<close> with \<open>1 \<le> N < 2 ^ 63\<close> (the range of the 64-bit
  counter), \<open>N\<close> consecutive calls of \<^verbatim>\<open>tempvar\<close> from the start of the process
  give \<open>N\<close> pairwise distinct names; the first is \<open>c\<close>, the \<open>k\<close>-th for \<open>k \<ge> 2\<close> is
  \<open>c\<close> followed by the decimal digits of \<open>k\<close>, and the counter is \<open>N\<close> afterwards.
\<close>

theorem tempvar_names:
  assumes "1 \<le> N" and "N < 2 ^ 63"
  shows "length (fst (tempvars N 0)) = N \<and>
         distinct (fst (tempvars N 0)) \<and>
         fst (tempvars N 0) ! 0 = ''c'' \<and>
         (\<forall>k. 2 \<le> k \<and> k \<le> N \<longrightarrow> fst (tempvars N 0) ! (k - 1) = ''c'' @ fmtDigits k []) \<and>
         sint (snd (tempvars N 0)) = int N"
proof -
  have nth: "fst (tempvars N 0) ! (k - 1) = (if k = 1 then ''c'' else ''c'' @ fmtDigits k [])"
    if "1 \<le> k" "k \<le> N" for k
  proof -
    from that assms(2) have "k - 1 < N" "k < 2 ^ 63" by simp_all
    with tempvars_nth [of "k - 1" N 0] tempvar_at [OF that(1)] show ?thesis by simp
  qed
  have len: "length (fst (tempvars N 0)) = N" by (rule tempvars_length)
  have dist: "distinct (fst (tempvars N 0))"
    unfolding distinct_conv_nth len
  proof (intro allI impI)
    fix i j
    assume i: "i < N" and j: "j < N" and ne: "i \<noteq> j"
    from i nth [of "Suc i"] have a: "fst (tempvars N 0) ! i =
        (if i = 0 then ''c'' else ''c'' @ fmtDigits (Suc i) [])" by simp
    from j nth [of "Suc j"] have b: "fst (tempvars N 0) ! j =
        (if j = 0 then ''c'' else ''c'' @ fmtDigits (Suc j) [])" by simp
    from ne fmtDigits_inj [of "Suc i" "Suc j"] fmtDigits_nonempty [of "Suc i" "[]"]
      fmtDigits_nonempty [of "Suc j" "[]"]
    show "fst (tempvars N 0) ! i \<noteq> fst (tempvars N 0) ! j"
      unfolding a b by auto
  qed
  from assms nth [of 1] have first: "fst (tempvars N 0) ! 0 = ''c''" by simp
  from nth have rest: "\<forall>k. 2 \<le> k \<and> k \<le> N \<longrightarrow> fst (tempvars N 0) ! (k - 1) = ''c'' @ fmtDigits k []"
    by simp
  from sint_of_nat_small [OF assms(2)] have cnt: "sint (snd (tempvars N 0)) = int N"
    by (simp add: tempvars_snd)
  from len dist first rest cnt show ?thesis by blast
qed

text \<open>Witness for C8: twelve calls; the second name is \<open>c2\<close>, the twelfth \<open>c12\<close>.\<close>

theorem tempvar_names_witness:
  "(1::nat) \<le> 12 \<and> (12::nat) < 2 ^ 63 \<and>
   length (fst (tempvars 12 0)) = 12 \<and> distinct (fst (tempvars 12 0)) \<and>
   fst (tempvars 12 0) ! 0 = ''c'' \<and> fst (tempvars 12 0) ! 1 = ''c2'' \<and>
   fst (tempvars 12 0) ! 11 = ''c12'' \<and> sint (snd (tempvars 12 0)) = 12"
proof -
  have a: "(1::nat) \<le> 12" by simp
  have b: "(12::nat) < 2 ^ 63" by simp
  have d: "fmtDigits 2 [] = ''2''" "fmtDigits 12 [] = ''12''"
    by (simp_all add: fmtDigits.simps digit_def)
  from tempvar_names [OF a b] have t: "length (fst (tempvars 12 0)) = 12 \<and>
         distinct (fst (tempvars 12 0)) \<and>
         fst (tempvars 12 0) ! 0 = ''c'' \<and>
         (\<forall>k. 2 \<le> k \<and> k \<le> 12 \<longrightarrow> fst (tempvars 12 0) ! (k - 1) = ''c'' @ fmtDigits k []) \<and>
         sint (snd (tempvars 12 0)) = int 12" .
  then have all: "\<forall>k. 2 \<le> k \<and> k \<le> 12 \<longrightarrow>
      fst (tempvars 12 0) ! (k - 1) = ''c'' @ fmtDigits k []"
    by blast
  from all [rule_format, of 2] all [rule_format, of 12] d have n: "fst (tempvars 12 0) ! 1 = ''c2''" "fst (tempvars 12 0) ! 11 = ''c12''"
    by simp_all
  from t n a b show ?thesis by simp
qed

text \<open>
  C8, as stated for every \<open>N\<close>, fails: the counter is a 64-bit \<^verbatim>\<open>int\<close>. The call
  number \<open>2 ^ 63\<close> increments the counter from the largest \<^verbatim>\<open>int\<close> to the smallest
  and yields \<open>c-9223372036854775808\<close>, not \<open>c\<close> followed by the decimal number
  \<open>9223372036854775808\<close>; and the call number \<open>2 ^ 64 + 1\<close> yields \<open>c\<close> again.
\<close>

theorem tempvar_overflow:
  "fst (tempvars (2 ^ 63) 0) ! (2 ^ 63 - 1) = ''c-9223372036854775808'' \<and>
   ''c'' @ fmtDigits (2 ^ 63) [] = ''c9223372036854775808'' \<and>
   fst (tempvars (2 ^ 64 + 1) 0) ! (2 ^ 64) = ''c''"
proof -
  have "(2::nat) ^ 63 - 1 < 2 ^ 63" by simp
  from tempvars_nth [OF this, of 0]
  have a: "fst (tempvars (2 ^ 63) 0) ! (2 ^ 63 - 1) = ''c-9223372036854775808''"
    by (simp add: tempvar_def fmt_d_def fmtDigits.simps digit_def)
  have b: "''c'' @ fmtDigits (2 ^ 63) [] = ''c9223372036854775808''"
    by (simp add: fmtDigits.simps digit_def)
  have "(2::nat) ^ 64 < 2 ^ 64 + 1" by simp
  from tempvars_nth [OF this, of 0]
  have c: "fst (tempvars (2 ^ 64 + 1) 0) ! (2 ^ 64) = ''c''"
    by (simp add: tempvar_def)
  from a b c show ?thesis by blast
qed

section \<open>Results on the scaffold emitter\<close>










































subsection \<open>C1: an error after a file was created\<close>

text \<open>
  C1 does not hold of the code. In the example the template engine fails on the
  controller template of the resource \<open>bottle\<close>, after the file
  \<open>out/bottle.go\<close> was created and its header written. The iterator returns the
  variable \<^verbatim>\<open>err\<close> of \<^verbatim>\<open>Generate\<close>, which is \<^verbatim>\<open>nil\<close>, instead of \<^verbatim>\<open>err2\<close>:
  \<^verbatim>\<open>Generate\<close> returns both files and no error, and the partial file stays. The
  formatting error, returned as \<^verbatim>\<open>err2\<close>, does abort the run and remove the file.
\<close>

theorem Generate_swallows_template_error:
  "TemplateError env_fail ''controller'' (ctrlT env_fail (hd (Resources (API g0))))
     = Some (0, Error ''controller template'') \<and>
   fst (Generate env_fail g0 w0) = Inr [''out/main.go'', ''out/bottle.go''] \<and>
   fs (snd (snd (Generate env_fail g0 w0))) ''out/bottle.go'' = Some ''package main\<newline>'' \<and>
   fst (Generate env_fmt g0 w_main) = Inl (Error ''gofmt'') \<and>
   fs (snd (snd (Generate env_fmt g0 w_main))) ''out/bottle.go'' = None"
  by (simp add: gen_defs env_fail_def env_fmt_def env0_def g0_def w0_def w_main_def Let_def)


subsection \<open>C5: a second run without force\<close>



subsection \<open>C6: a run with force\<close>




section \<open>Results on the rollback tracker\<close>

text \<open>
  C9: Cleanup is idempotent. After one call the creation log is empty, and a second
  call changes neither the generator (its log stays empty) nor the file system: it
  removes nothing.
\<close>

theorem Cleanup_idempotent:
  "(case Cleanup g w of (g', w') \<Rightarrow>
      genfiles g' = [] \<and> fold Remove (genfiles g') w' = w' \<and> Cleanup g' w' = (g', w'))"
  by (simp add: Cleanup_def)

end
